theory Spec2Isabelle
  imports Complex_Main "HOL-Library.Multiset"
begin

section \<open>Values shared by the engines\<close>

text \<open>
  A call either returns a value or throws. The only exceptions the modelled routines can
  raise are the explicit \<^verbatim>\<open>throw new Error(msg)\<close> of the statistics routine and the
  \<^verbatim>\<open>TypeError\<close> the runtime raises when a property of \<^verbatim>\<open>undefined\<close> is read.
\<close>

datatype error = TypeError | Error string

type_synonym 'a result = "error + 'a"

text \<open>
  An array read \<^verbatim>\<open>xs[i]\<close>: the element, or \<^verbatim>\<open>undefined\<close> (here \<open>None\<close>) outside the
  array. Indices are JavaScript numbers, so they may be negative.
\<close>

definition js_at :: "'a list \<Rightarrow> int \<Rightarrow> 'a option" where
  "js_at xs i = (if 0 \<le> i \<and> i < int (length xs) then Some (xs ! nat i) else None)"

text \<open>
  JavaScript numbers where the special values matter: finite values are idealised as
  reals (no rounding, no overflow, no negative zero), the two infinities and NaN are kept.
\<close>

datatype jsnum = Num real | PosInf | NegInf | NaN

fun js_neg :: "jsnum \<Rightarrow> jsnum" where
  "js_neg (Num a) = Num (- a)"
| "js_neg PosInf = NegInf"
| "js_neg NegInf = PosInf"
| "js_neg NaN = NaN"

fun js_add :: "jsnum \<Rightarrow> jsnum \<Rightarrow> jsnum" where
  "js_add NaN _ = NaN"
| "js_add _ NaN = NaN"
| "js_add (Num a) (Num b) = Num (a + b)"
| "js_add PosInf NegInf = NaN"
| "js_add NegInf PosInf = NaN"
| "js_add PosInf _ = PosInf"
| "js_add _ PosInf = PosInf"
| "js_add NegInf _ = NegInf"
| "js_add _ NegInf = NegInf"

definition js_sub :: "jsnum \<Rightarrow> jsnum \<Rightarrow> jsnum" where
  "js_sub a b = js_add a (js_neg b)"

text \<open>The sign of a number that is not NaN: \<open>-1\<close>, \<open>0\<close> or \<open>1\<close>.\<close>

fun js_sign :: "jsnum \<Rightarrow> int" where
  "js_sign (Num a) = (if a < 0 then - 1 else if a = 0 then 0 else 1)"
| "js_sign PosInf = 1"
| "js_sign NegInf = - 1"
| "js_sign NaN = 0"

fun js_mul :: "jsnum \<Rightarrow> jsnum \<Rightarrow> jsnum" where
  "js_mul NaN _ = NaN"
| "js_mul _ NaN = NaN"
| "js_mul (Num a) (Num b) = Num (a * b)"
| "js_mul a b =
     (let s = js_sign a * js_sign b
      in if s = 0 then NaN else if s < 0 then NegInf else PosInf)"

fun js_div :: "jsnum \<Rightarrow> jsnum \<Rightarrow> jsnum" where
  "js_div NaN _ = NaN"
| "js_div _ NaN = NaN"
| "js_div (Num a) (Num b) =
     (if b \<noteq> 0 then Num (a / b)
      else if a = 0 then NaN else if a < 0 then NegInf else PosInf)"
| "js_div (Num a) _ = Num 0"
| "js_div a (Num b) =
     (if js_sign a * (if b < 0 then - 1 else 1) < 0 then NegInf else PosInf)"
| "js_div _ _ = NaN"

text \<open>\<^verbatim>\<open>Math.pow(x, n)\<close> for a natural exponent; \<^verbatim>\<open>Math.pow(NaN, 0)\<close> is 1.\<close>

fun js_pow :: "jsnum \<Rightarrow> nat \<Rightarrow> jsnum" where
  "js_pow x 0 = Num 1"
| "js_pow x (Suc n) = js_mul x (js_pow x n)"

text \<open>The comparison \<^verbatim>\<open>a < b\<close>: false as soon as one side is NaN.\<close>

fun js_lt :: "jsnum \<Rightarrow> jsnum \<Rightarrow> bool" where
  "js_lt NaN _ = False"
| "js_lt _ NaN = False"
| "js_lt (Num a) (Num b) = (a < b)"
| "js_lt PosInf _ = False"
| "js_lt _ PosInf = True"
| "js_lt NegInf NegInf = False"
| "js_lt NegInf _ = True"
| "js_lt _ NegInf = False"

text \<open>\<^verbatim>\<open>Math.max\<close> and \<^verbatim>\<open>Math.min\<close> of two numbers: NaN as soon as one argument is NaN.\<close>

fun js_max :: "jsnum \<Rightarrow> jsnum \<Rightarrow> jsnum" where
  "js_max NaN _ = NaN"
| "js_max _ NaN = NaN"
| "js_max a b = (if js_lt a b then b else a)"

fun js_min :: "jsnum \<Rightarrow> jsnum \<Rightarrow> jsnum" where
  "js_min NaN _ = NaN"
| "js_min _ NaN = NaN"
| "js_min a b = (if js_lt b a then b else a)"

fun js_floor :: "jsnum \<Rightarrow> jsnum" where
  "js_floor (Num a) = Num (of_int \<lfloor>a\<rfloor>)"
| "js_floor x = x"

fun js_sqrt :: "jsnum \<Rightarrow> jsnum" where
  "js_sqrt (Num a) = (if a < 0 then NaN else Num (sqrt a))"
| "js_sqrt PosInf = PosInf"
| "js_sqrt _ = NaN"

text \<open>A numeric array read used in arithmetic: \<^verbatim>\<open>undefined\<close> turns into NaN.\<close>

definition js_at_num :: "real list \<Rightarrow> nat \<Rightarrow> jsnum" where
  "js_at_num xs i = (if i < length xs then Num (xs ! i) else NaN)"


section \<open>Search engine: exact pattern positions (Boyer-Moore)\<close>

text \<open>
  \<^verbatim>\<open>buildBadCharTable\<close>: a map from each character of the pattern to the last index
  where it stands.
\<close>

definition buildBadCharTable :: "'c list \<Rightarrow> ('c \<rightharpoonup> nat)" where
  "buildBadCharTable pattern =
     fold (\<lambda>i table. table(pattern ! i \<mapsto> i)) [0..<length pattern] Map.empty"

text \<open>\<^verbatim>\<open>table.get(text[i])\<close>; the key may be \<^verbatim>\<open>undefined\<close>, which is in no table.\<close>

definition table_get :: "('c \<rightharpoonup> nat) \<Rightarrow> 'c option \<Rightarrow> nat option" where
  "table_get table key = (case key of None \<Rightarrow> None | Some c \<Rightarrow> table c)"

text \<open>
  The inner loop \<^verbatim>\<open>while (j >= 0 && pattern[j] === text[shift + j]) j--\<close>; it
  returns the final \<open>j\<close>.
\<close>

function match_loop :: "'c list \<Rightarrow> 'c list \<Rightarrow> int \<Rightarrow> int \<Rightarrow> int" where
  "match_loop text pattern shift j =
     (if 0 \<le> j \<and> js_at pattern j = js_at text (shift + j)
      then match_loop text pattern shift (j - 1) else j)"
  by pat_completeness auto
termination
  by (relation "measure (\<lambda>(text, pattern, shift, j). nat (j + 1))") auto

text \<open>
  The shift after a full match:
  \<^verbatim>\<open>shift + m < n ? m - table.get(text[shift + m]) || m : 1\<close>. The subtraction binds
  tighter than \<^verbatim>\<open>||\<close>: a missing entry gives NaN, which is falsy, and so does 0.
\<close>

definition match_shift :: "'c list \<Rightarrow> 'c list \<Rightarrow> ('c \<rightharpoonup> nat) \<Rightarrow> int \<Rightarrow> int" where
  "match_shift text pattern table shift =
     (if shift + int (length pattern) < int (length text) then
        (case table_get table (js_at text (shift + int (length pattern))) of
           None \<Rightarrow> int (length pattern)
         | Some k \<Rightarrow>
             (if int (length pattern) - int k = 0 then int (length pattern)
              else int (length pattern) - int k))
      else 1)"

text \<open>
  The shift after a mismatch at \<open>j\<close>:
  \<^verbatim>\<open>Math.max(1, j - (table.get(text[shift + j]) || -1))\<close>. An entry 0 is falsy, so a
  character whose last occurrence is index 0 is treated like a missing one.
\<close>

definition mismatch_shift :: "'c list \<Rightarrow> ('c \<rightharpoonup> nat) \<Rightarrow> int \<Rightarrow> int \<Rightarrow> int" where
  "mismatch_shift text table shift j =
     max 1 (j - (case table_get table (js_at text (shift + j)) of
                   None \<Rightarrow> - 1
                 | Some k \<Rightarrow> (if k = 0 then - 1 else int k)))"

text \<open>
  The outer loop \<^verbatim>\<open>while (shift <= text.length - pattern.length)\<close>. With an empty
  pattern and a non-empty text the shift after a match is 0 and the loop never ends, so
  the loop is a partial function: \<open>None\<close> is "does not return".
\<close>

partial_function (option) bm_loop ::
  "'c list \<Rightarrow> 'c list \<Rightarrow> ('c \<rightharpoonup> nat) \<Rightarrow> int \<Rightarrow> int list \<Rightarrow> int list option" where
  "bm_loop text pattern table shift positions =
     (if shift \<le> int (length text) - int (length pattern) then
        (if match_loop text pattern shift (int (length pattern) - 1) < 0 then
           bm_loop text pattern table
             (shift + match_shift text pattern table shift) (positions @ [shift])
         else
           bm_loop text pattern table
             (shift + mismatch_shift text table shift
                (match_loop text pattern shift (int (length pattern) - 1)))
             positions)
      else Some positions)"

definition boyerMooreSearch :: "'c list \<Rightarrow> 'c list \<Rightarrow> int list option" where
  "boyerMooreSearch text pattern = bm_loop text pattern (buildBadCharTable pattern) 0 []"

text \<open>
  What the routine is specified to compute: the offsets \<open>k\<close> at which the pattern stands
  in the text, in increasing order.
\<close>

definition occurs_at :: "'c list \<Rightarrow> 'c list \<Rightarrow> nat \<Rightarrow> bool" where
  "occurs_at text pattern k \<longleftrightarrow>
     k + length pattern \<le> length text \<and> take (length pattern) (drop k text) = pattern"

definition occurrences :: "'c list \<Rightarrow> 'c list \<Rightarrow> int list" where
  "occurrences text pattern =
     map int (filter (occurs_at text pattern) [0..<Suc (length text)])"


section \<open>Prediction engine: confidence of the ridge regression\<close>

text \<open>
  \<^verbatim>\<open>predict\<close>: \<^verbatim>\<open>weights[0] + features.reduce((sum, f, i) => sum + f * weights[i + 1], 0)\<close>.
\<close>

definition predict :: "real list \<Rightarrow> real list \<Rightarrow> jsnum" where
  "predict features weights =
     js_add (js_at_num weights 0)
       (fold (\<lambda>i sum. js_add sum (js_mul (Num (features ! i)) (js_at_num weights (i + 1))))
          [0..<length features] (Num 0))"

text \<open>\<^verbatim>\<open>variance\<close>: the population variance, both divisions by \<^verbatim>\<open>values.length\<close>.\<close>

definition variance :: "real list \<Rightarrow> jsnum" where
  "variance values =
     (let mean = js_div (Num (fold (\<lambda>val sum. sum + val) values 0))
                   (Num (real (length values)))
      in js_div (fold (\<lambda>val sum. js_add sum (js_pow (js_sub (Num val) mean) 2)) values (Num 0))
           (Num (real (length values))))"

definition calculateConfidence :: "real list list \<Rightarrow> real list \<Rightarrow> real list \<Rightarrow> jsnum" where
  "calculateConfidence X y weights =
     (let predictions = map (\<lambda>features. predict features weights) X;
          mse = js_div
                  (fold (\<lambda>i sum. js_add sum (js_pow (js_sub (predictions ! i) (js_at_num y i)) 2))
                     [0..<length predictions] (Num 0))
                  (Num (real (length y)))
      in js_max (Num 0) (js_sub (Num 1) (js_div mse (variance y))))"


section \<open>Records of the student collection\<close>

text \<open>
  The scalar fields of the \<^verbatim>\<open>Student\<close> interface (the identifier \<^verbatim>\<open>id\<close> is
  \<open>student_id\<close> here); dates are their \<^verbatim>\<open>getTime()\<close> instants. The nested objects and
  arrays of the interface are read by none of the routines below.
\<close>

record student =
  student_id :: string
  firstName :: string
  lastName :: string
  email :: string
  rollNo :: string
  contact :: string
  gender :: string
  course :: string
  department :: string
  year :: real
  semester :: real
  gpa :: real
  credits :: real
  status :: string
  dateOfBirth :: real
  enrollmentDate :: real
  createdAt :: real
  updatedAt :: real

text \<open>
  The dynamic read \<^verbatim>\<open>(student as any)[feature]\<close>: a number, a string, a Date, or
  anything else (an object, an array, or \<^verbatim>\<open>undefined\<close> for a name that is no field).
\<close>

datatype jsval = VNumber real | VString string | VDate real | VOther

definition student_field :: "student \<Rightarrow> string \<Rightarrow> jsval" where
  "student_field s f =
     (if f = ''id'' then VString (student_id s)
      else if f = ''firstName'' then VString (firstName s)
      else if f = ''lastName'' then VString (lastName s)
      else if f = ''email'' then VString (email s)
      else if f = ''rollNo'' then VString (rollNo s)
      else if f = ''contact'' then VString (contact s)
      else if f = ''gender'' then VString (gender s)
      else if f = ''course'' then VString (course s)
      else if f = ''department'' then VString (department s)
      else if f = ''year'' then VNumber (year s)
      else if f = ''semester'' then VNumber (semester s)
      else if f = ''gpa'' then VNumber (gpa s)
      else if f = ''credits'' then VNumber (credits s)
      else if f = ''status'' then VString (status s)
      else if f = ''dateOfBirth'' then VDate (dateOfBirth s)
      else if f = ''enrollmentDate'' then VDate (enrollmentDate s)
      else if f = ''createdAt'' then VDate (createdAt s)
      else if f = ''updatedAt'' then VDate (updatedAt s)
      else VOther)"

text \<open>
  Insertion-ordered maps (\<^verbatim>\<open>Map\<close>): \<^verbatim>\<open>set\<close> keeps the position of a key that is
  present and appends a new key; \<^verbatim>\<open>get\<close> is \<open>map_of\<close>.
\<close>

fun map_set :: "('k \<times> 'v) list \<Rightarrow> 'k \<Rightarrow> 'v \<Rightarrow> ('k \<times> 'v) list" where
  "map_set [] k v = [(k, v)]"
| "map_set ((k', v') # m) k v =
     (if k' = k then (k', v) # m else (k', v') # map_set m k v)"


section \<open>Analytics engine: descriptive statistics\<close>

record StatisticalSummary =
  s_count :: nat
  s_sum :: real
  s_mean :: real
  s_median :: real
  s_mode :: "real list"
  s_variance :: real
  s_standardDeviation :: real
  s_min :: real
  s_max :: real
  s_range :: real
  s_q1 :: real
  s_q3 :: real
  s_iqr :: real
  s_skewness :: jsnum
  s_kurtosis :: jsnum
  s_outliers :: "real list"

text \<open>
  \<^verbatim>\<open>calculatePercentile\<close>, called on the sorted non-empty array only, where both reads
  are inside the array.
\<close>

definition calculatePercentile :: "real list \<Rightarrow> real \<Rightarrow> real" where
  "calculatePercentile sortedArray percentile =
     (let index = (percentile / 100) * (real (length sortedArray) - 1);
          lower = \<lfloor>index\<rfloor>;
          upper = \<lceil>index\<rceil>
      in if lower = upper then sortedArray ! nat lower
         else sortedArray ! nat lower * (of_int upper - index)
              + sortedArray ! nat upper * (index - of_int lower))"

definition detectOutliers :: "real list \<Rightarrow> real \<Rightarrow> real \<Rightarrow> real \<Rightarrow> real list" where
  "detectOutliers sorted_values q1 q3 iqr =
     (let lowerBound = q1 - 1.5 * iqr;
          upperBound = q3 + 1.5 * iqr
      in filter (\<lambda>val. val < lowerBound \<or> val > upperBound) sorted_values)"

text \<open>The frequency table of the mode computation, in first-occurrence order.\<close>

definition frequency_table :: "real list \<Rightarrow> (real \<times> nat) list" where
  "frequency_table values =
     fold (\<lambda>val frequency.
             map_set frequency val ((case map_of frequency val of None \<Rightarrow> 0 | Some c \<Rightarrow> c) + 1))
       values []"

definition calculateStatistics :: "real list \<Rightarrow> StatisticalSummary result" where
  "calculateStatistics values =
     (if length values = 0 then Inl (Error ''Cannot calculate statistics for empty array'')
      else
        (let sorted_values = sort values;
             n = length values;
             total = fold (\<lambda>val acc. acc + val) values 0;
             mean = total / real n;
             var = fold (\<lambda>val acc. acc + (val - mean) ^ 2) values 0 / real n;
             standardDeviation = sqrt var;
             median = (if n mod 2 = 0
                       then (sorted_values ! (n div 2 - 1) + sorted_values ! (n div 2)) / 2
                       else sorted_values ! (n div 2));
             q1 = calculatePercentile sorted_values 25;
             q3 = calculatePercentile sorted_values 75;
             iqr = q3 - q1;
             skewness = js_div
               (fold (\<lambda>val acc.
                        js_add acc (js_pow (js_div (Num (val - mean)) (Num standardDeviation)) 3))
                  values (Num 0))
               (Num (real n));
             kurtosis = js_sub
               (js_div
                  (fold (\<lambda>val acc.
                           js_add acc (js_pow (js_div (Num (val - mean)) (Num standardDeviation)) 4))
                     values (Num 0))
                  (Num (real n)))
               (Num 3);
             frequency = frequency_table values;
             maxFreq = fold max (map snd frequency) 0;
             mode = map fst (filter (\<lambda>(val, freq). freq = maxFreq) frequency)
         in Inr \<lparr> s_count = n, s_sum = total, s_mean = mean, s_median = median,
                  s_mode = mode, s_variance = var, s_standardDeviation = standardDeviation,
                  s_min = sorted_values ! 0, s_max = sorted_values ! (n - 1),
                  s_range = sorted_values ! (n - 1) - sorted_values ! 0,
                  s_q1 = q1, s_q3 = q3, s_iqr = iqr,
                  s_skewness = skewness, s_kurtosis = kurtosis,
                  s_outliers = detectOutliers sorted_values q1 q3 iqr \<rparr>))"


section \<open>Analytics engine: k-means clustering\<close>

text \<open>
  \<^verbatim>\<open>extractNumericFeature\<close>. \<^verbatim>\<open>parseFloat\<close> is the runtime's; it is a parameter here.
  \<^verbatim>\<open>parseFloat(value) || 0\<close> replaces NaN and 0 by 0.
\<close>

definition extractNumericFeature :: "(string \<Rightarrow> jsnum) \<Rightarrow> student \<Rightarrow> string \<Rightarrow> jsnum" where
  "extractNumericFeature parseFloat s feature =
     (case student_field s feature of
        VNumber x \<Rightarrow> Num x
      | VString t \<Rightarrow>
          (if parseFloat t = NaN \<or> parseFloat t = Num 0 then Num 0 else parseFloat t)
      | VDate t \<Rightarrow> Num t
      | VOther \<Rightarrow> Num 0)"

text \<open>A coordinate read \<^verbatim>\<open>point[d]\<close> used in arithmetic.\<close>

definition coord :: "jsnum list \<Rightarrow> nat \<Rightarrow> jsnum" where
  "coord point d = (if d < length point then point ! d else NaN)"

text \<open>
  \<^verbatim>\<open>initializeCentroids\<close>. \<^verbatim>\<open>Math.random()\<close> is injected: \<open>random i d\<close> is the draw
  for dimension \<open>d\<close> of centroid \<open>i\<close>. Reading \<^verbatim>\<open>points[0].length\<close> of an empty
  collection throws.
\<close>

definition initializeCentroids ::
  "(nat \<Rightarrow> nat \<Rightarrow> real) \<Rightarrow> jsnum list list \<Rightarrow> nat \<Rightarrow> jsnum list list result" where
  "initializeCentroids random points k =
     (case points of
        [] \<Rightarrow> Inl TypeError
      | p0 # _ \<Rightarrow>
          Inr (map (\<lambda>i. map (\<lambda>d.
                 (let values = map (\<lambda>point. coord point d) points;
                      mn = fold (\<lambda>v m. js_min m v) values PosInf;
                      mx = fold (\<lambda>v m. js_max m v) values NegInf
                  in js_add (js_mul (Num (random i d)) (js_sub mx mn)) mn))
                 [0..<length p0]) [0..<k]))"

text \<open>
  \<^verbatim>\<open>euclideanDistance\<close>. The second point may be \<^verbatim>\<open>undefined\<close> (\<open>None\<close>): the
  callback of \<^verbatim>\<open>reduce\<close> then reads \<^verbatim>\<open>point2[index]\<close> and throws, unless the first point
  is empty and the callback never runs.
\<close>

definition squared_diffs :: "jsnum list \<Rightarrow> jsnum list \<Rightarrow> jsnum" where
  "squared_diffs point1 point2 =
     fold (\<lambda>index sum. js_add sum (js_pow (js_sub (point1 ! index) (coord point2 index)) 2))
       [0..<length point1] (Num 0)"

definition euclideanDistance :: "jsnum list \<Rightarrow> jsnum list option \<Rightarrow> jsnum result" where
  "euclideanDistance point1 point2 =
     (case point2 of
        None \<Rightarrow> (if point1 = [] then Inr (js_sqrt (Num 0)) else Inl TypeError)
      | Some p2 \<Rightarrow> Inr (js_sqrt (squared_diffs point1 p2)))"

text \<open>
  \<^verbatim>\<open>findNearestCentroid\<close>: the first centroid at the strictly smallest distance, index 0
  when there is none. Every centroid it reads is an array, so no distance throws.
\<close>

definition findNearestCentroid :: "jsnum list \<Rightarrow> jsnum list list \<Rightarrow> nat" where
  "findNearestCentroid point centroids =
     snd (fold (\<lambda>index (minDistance, nearestIndex).
                  (let distance = js_sqrt (squared_diffs point (centroids ! index))
                   in if js_lt distance minDistance then (distance, index)
                      else (minDistance, nearestIndex)))
            [0..<length centroids] (PosInf, 0))"

text \<open>
  Assignment arrays: \<open>None\<close> is an empty slot of \<^verbatim>\<open>new Array(n)\<close>.
  \<^verbatim>\<open>a.every(callback)\<close> does not call the callback on an empty slot of \<open>a\<close>.
\<close>

definition arraysEqual :: "nat option list \<Rightarrow> nat option list \<Rightarrow> bool" where
  "arraysEqual a b \<longleftrightarrow>
     length a = length b \<and>
     list_all (\<lambda>index. case a ! index of None \<Rightarrow> True | Some val \<Rightarrow> b ! index = Some val)
       [0..<length a]"

text \<open>
  \<^verbatim>\<open>updateCentroids\<close>: the mean of the points assigned to each cluster, the zero vector
  for a cluster without points. All points have \<^verbatim>\<open>points[0].length\<close> coordinates.
\<close>

definition updateCentroids ::
  "jsnum list list \<Rightarrow> nat option list \<Rightarrow> nat \<Rightarrow> jsnum list list result" where
  "updateCentroids points assignments k =
     (case points of
        [] \<Rightarrow> Inl TypeError
      | p0 # _ \<Rightarrow>
          Inr (map (\<lambda>cluster.
                 (let clusterPoints =
                        map (\<lambda>index. points ! index)
                          (filter (\<lambda>index. js_at assignments (int index) = Some (Some cluster))
                             [0..<length points])
                  in if length clusterPoints = 0 then replicate (length p0) (Num 0)
                     else map (\<lambda>total. js_div total (Num (real (length clusterPoints))))
                            (fold (\<lambda>point centroid.
                                     fold (\<lambda>dim c. c[dim := js_add (c ! dim) (point ! dim)])
                                       [0..<length point] centroid)
                               clusterPoints (replicate (length p0) (Num 0)))))
                 [0..<k]))"

text \<open>
  \<^verbatim>\<open>calculateInertia\<close>: \<^verbatim>\<open>centroids[assignments[index]]\<close> is \<^verbatim>\<open>undefined\<close> when the
  slot of the assignment is empty or the index is outside the centroids.
\<close>

definition calculateInertia ::
  "jsnum list list \<Rightarrow> jsnum list list \<Rightarrow> nat option list \<Rightarrow> jsnum result" where
  "calculateInertia points centroids assignments =
     fold (\<lambda>index acc.
             case acc of
               Inl e \<Rightarrow> Inl e
             | Inr tot \<Rightarrow>
                 (let centroid = (case js_at assignments (int index) of
                                    Some (Some c) \<Rightarrow> js_at centroids (int c)
                                  | _ \<Rightarrow> None)
                  in case euclideanDistance (points ! index) centroid of
                       Inl e \<Rightarrow> Inl e
                     | Inr distance \<Rightarrow> Inr (js_add tot (js_pow distance 2))))
       [0..<length points] (Inr (Num 0))"

text \<open>
  The iteration of \<^verbatim>\<open>kMeansClustering\<close>: at most \<open>maxIterations\<close> rounds, left early
  when \<^verbatim>\<open>arraysEqual(assignments, newAssignments)\<close>.
\<close>

function kmeans_loop ::
  "jsnum list list \<Rightarrow> nat \<Rightarrow> nat \<Rightarrow> nat \<Rightarrow> jsnum list list \<Rightarrow> nat option list
     \<Rightarrow> (jsnum list list \<times> nat option list) result" where
  "kmeans_loop points k maxIterations iteration centroids assignments =
     (if iteration < maxIterations then
        (if arraysEqual assignments
              (map (\<lambda>point. Some (findNearestCentroid point centroids)) points)
         then Inr (centroids, assignments)
         else
           (case updateCentroids points
                   (map (\<lambda>point. Some (findNearestCentroid point centroids)) points) k of
              Inl e \<Rightarrow> Inl e
            | Inr newCentroids \<Rightarrow>
                kmeans_loop points k maxIterations (Suc iteration) newCentroids
                  (map (\<lambda>point. Some (findNearestCentroid point centroids)) points)))
      else Inr (centroids, assignments))"
  by pat_completeness auto
termination
  by (relation "measure (\<lambda>(points, k, maxIterations, iteration, centroids, assignments).
        maxIterations - iteration)") auto

text \<open>
  Grouping: \<^verbatim>\<open>assignments.forEach((clusterIndex, studentIndex) =>
  clusters[clusterIndex].push(studentIndex))\<close>; empty slots are skipped, and a cluster
  index outside the \<open>k\<close> clusters throws.
\<close>

definition group_clusters :: "nat \<Rightarrow> nat option list \<Rightarrow> nat list list result" where
  "group_clusters k assignments =
     fold (\<lambda>studentIndex acc.
             case acc of
               Inl e \<Rightarrow> Inl e
             | Inr clusters \<Rightarrow>
                 (case assignments ! studentIndex of
                    None \<Rightarrow> Inr clusters
                  | Some clusterIndex \<Rightarrow>
                      (if clusterIndex < length clusters
                       then Inr (clusters[clusterIndex := clusters ! clusterIndex @ [studentIndex]])
                       else Inl TypeError)))
       [0..<length assignments] (Inr (replicate k []))"

record ClusterResult =
  c_clusters :: "student list list"
  c_centroids :: "jsnum list list"
  c_assignments :: "nat option list"
  c_inertia :: jsnum

definition kMeansClustering ::
  "(string \<Rightarrow> jsnum) \<Rightarrow> (nat \<Rightarrow> nat \<Rightarrow> real) \<Rightarrow> student list \<Rightarrow> nat \<Rightarrow> string list \<Rightarrow> nat
     \<Rightarrow> ClusterResult result" where
  "kMeansClustering parseFloat random students k features maxIterations =
     (let points = map (\<lambda>s. map (\<lambda>feature. extractNumericFeature parseFloat s feature) features)
                     students
      in case initializeCentroids random points k of
           Inl e \<Rightarrow> Inl e
         | Inr centroids0 \<Rightarrow>
             (case kmeans_loop points k maxIterations 0 centroids0
                     (replicate (length points) None) of
                Inl e \<Rightarrow> Inl e
              | Inr (cs, as) \<Rightarrow>
                  (case group_clusters k as of
                     Inl e \<Rightarrow> Inl e
                   | Inr groups \<Rightarrow>
                       (case calculateInertia points cs as of
                          Inl e \<Rightarrow> Inl e
                        | Inr tot \<Rightarrow>
                            Inr \<lparr> c_clusters = map (map (\<lambda>index. students ! index)) groups,
                                  c_centroids = cs, c_assignments = as, c_inertia = tot \<rparr>))))"

text \<open>A sample record for concrete runs.\<close>

definition sample_student :: student where
  "sample_student =
     \<lparr> student_id = ''1'', firstName = ''John'', lastName = ''Doe'',
       email = ''john@example.com'', rollNo = ''R1'', contact = ''555'', gender = ''male'',
       course = ''CS'', department = ''Engineering'', year = 1, semester = 1, gpa = 3,
       credits = 12, status = ''active'', dateOfBirth = 0, enrollmentDate = 0,
       createdAt = 0, updatedAt = 0 \<rparr>"


section \<open>Sort engine: insertion sort of a segment\<close>

text \<open>
  Arrays are lists; an in-place routine takes the array and returns it updated. Indices
  are JavaScript numbers (\<open>j\<close> and \<open>i\<close> below reach \<open>low - 1\<close>, which is \<open>-1\<close> for
  \<open>low = 0\<close>). The private routines are called with \<open>0 \<le> low\<close> and
  \<open>high < arr.length\<close> only, so every read and write is inside the array.

  A comparator is a function to the numbers of which only the sign is used.
\<close>

type_synonym 'a comparator = "'a \<Rightarrow> 'a \<Rightarrow> int"

text \<open>
  The inner loop \<^verbatim>\<open>while (j >= low && compareFn(arr[j], key) > 0) { arr[j + 1] = arr[j]; j--; }\<close>.
\<close>

function insert_shift :: "'a comparator \<Rightarrow> 'a \<Rightarrow> int \<Rightarrow> int \<Rightarrow> 'a list \<Rightarrow> int \<times> 'a list" where
  "insert_shift compareFn key low j arr =
     (if low \<le> j \<and> 0 < compareFn (arr ! nat j) key
      then insert_shift compareFn key low (j - 1) (arr[nat (j + 1) := arr ! nat j])
      else (j, arr))"
  by pat_completeness auto
termination
  by (relation "measure (\<lambda>(compareFn, key, low, j, arr). nat (j - low + 1))") auto

text \<open>The outer loop \<^verbatim>\<open>for (let i = low + 1; i <= high; i++)\<close>.\<close>

function insertion_loop :: "'a comparator \<Rightarrow> int \<Rightarrow> int \<Rightarrow> int \<Rightarrow> 'a list \<Rightarrow> 'a list" where
  "insertion_loop compareFn low high i arr =
     (if i \<le> high then
        (case insert_shift compareFn (arr ! nat i) low (i - 1) arr of
           (j, arr') \<Rightarrow>
             insertion_loop compareFn low high (i + 1) (arr'[nat (j + 1) := arr ! nat i]))
      else arr)"
  by pat_completeness auto
termination
  by (relation "measure (\<lambda>(compareFn, low, high, i, arr). nat (high - i + 1))") auto

definition insertionSort :: "'a list \<Rightarrow> int \<Rightarrow> int \<Rightarrow> 'a comparator \<Rightarrow> 'a list" where
  "insertionSort arr low high compareFn = insertion_loop compareFn low high (low + 1) arr"


section \<open>Sort engine: hybrid quicksort\<close>

text \<open>The destructuring swap \<^verbatim>\<open>[arr[i], arr[j]] = [arr[j], arr[i]]\<close>.\<close>

definition swap_at :: "'a list \<Rightarrow> int \<Rightarrow> int \<Rightarrow> 'a list" where
  "swap_at arr i j = arr[nat i := arr ! nat j, nat j := arr ! nat i]"

text \<open>The three conditional swaps of the median-of-three selection.\<close>

definition median_of_three :: "'a list \<Rightarrow> int \<Rightarrow> int \<Rightarrow> 'a comparator \<Rightarrow> 'a list" where
  "median_of_three arr low high compareFn =
     (let mid = (low + high) div 2;
          arr1 = (if compareFn (arr ! nat mid) (arr ! nat low) < 0
                  then swap_at arr low mid else arr);
          arr2 = (if compareFn (arr1 ! nat high) (arr1 ! nat low) < 0
                  then swap_at arr1 low high else arr1)
      in if compareFn (arr2 ! nat high) (arr2 ! nat mid) < 0
         then swap_at arr2 mid high else arr2)"

text \<open>
  The scan \<^verbatim>\<open>for (let j = low; j < high; j++)\<close> of the partition; it returns the final
  \<open>i\<close> and the array.
\<close>

function partition_loop ::
  "'a comparator \<Rightarrow> 'a \<Rightarrow> int \<Rightarrow> int \<Rightarrow> int \<Rightarrow> 'a list \<Rightarrow> int \<times> 'a list" where
  "partition_loop compareFn pivot high j i arr =
     (if j < high then
        (if compareFn (arr ! nat j) pivot \<le> 0
         then partition_loop compareFn pivot high (j + 1) (i + 1) (swap_at arr (i + 1) j)
         else partition_loop compareFn pivot high (j + 1) i arr)
      else (i, arr))"
  by pat_completeness auto
termination
  by (relation "measure (\<lambda>(compareFn, pivot, high, j, i, arr). nat (high - j))") auto

text \<open>\<^verbatim>\<open>partition\<close> returns the pivot index; the array it has rearranged comes with it.\<close>

definition partitionArr :: "'a list \<Rightarrow> int \<Rightarrow> int \<Rightarrow> 'a comparator \<Rightarrow> int \<times> 'a list" where
  "partitionArr arr low high compareFn =
     (let mid = (low + high) div 2;
          arr3 = median_of_three arr low high compareFn;
          pivot = arr3 ! nat mid;
          arr4 = swap_at arr3 mid high
      in case partition_loop compareFn pivot high low (low - 1) arr4 of
           (i, arr5) \<Rightarrow> (i + 1, swap_at arr5 (i + 1) high))"

declare insert_shift.simps [simp del] insertion_loop.simps [simp del]
  partition_loop.simps [simp del]

lemma partition_loop_bounds:
  "partition_loop compareFn pivot high j i arr = (i', arr') \<Longrightarrow> j \<le> high
     \<Longrightarrow> i \<le> i' \<and> i' \<le> i + (high - j)"
proof (induction compareFn pivot high j i arr rule: partition_loop.induct)
  case (1 compareFn pivot high j i arr)
  note unfold = partition_loop.simps [of compareFn pivot high j i arr]
  show ?case
  proof (cases "j < high")
    case False
    with "1.prems" unfold show ?thesis by simp
  next
    case True
    show ?thesis
    proof (cases "compareFn (arr ! nat j) pivot \<le> 0")
      case le: True
      with True "1.prems" unfold
      have "partition_loop compareFn pivot high (j + 1) (i + 1) (swap_at arr (i + 1) j) = (i', arr')"
        by simp
      from "1.IH"(1) [OF True le this] True show ?thesis by simp
    next
      case gt: False
      with True "1.prems" unfold
      have "partition_loop compareFn pivot high (j + 1) i arr = (i', arr')"
        by simp
      from "1.IH"(2) [OF True gt this] True show ?thesis by simp
    qed
  qed
qed

lemma partitionArr_bounds:
  assumes "partitionArr arr low high compareFn = (p, arr')" and "low \<le> high"
  shows "low \<le> p \<and> p \<le> high"
proof -
  from assms(1) obtain i arr5 where
    loop: "partition_loop compareFn
             (median_of_three arr low high compareFn ! nat ((low + high) div 2)) high low (low - 1)
             (swap_at (median_of_three arr low high compareFn) ((low + high) div 2) high)
           = (i, arr5)"
    and p: "p = i + 1"
    by (auto simp: partitionArr_def Let_def split: prod.splits)
  from partition_loop_bounds [OF loop assms(2)] p show ?thesis by simp
qed

function quickSortHybrid ::
  "'a list \<Rightarrow> int \<Rightarrow> int \<Rightarrow> 'a comparator \<Rightarrow> int \<Rightarrow> 'a list" where
  "quickSortHybrid arr low high compareFn threshold =
     (if low < high then
        (if high - low + 1 < threshold then insertionSort arr low high compareFn
         else
           (case partitionArr arr low high compareFn of
              (pivotIndex, arr1) \<Rightarrow>
                quickSortHybrid
                  (quickSortHybrid arr1 low (pivotIndex - 1) compareFn threshold)
                  (pivotIndex + 1) high compareFn threshold))
      else arr)"
  by pat_completeness auto
termination
proof (relation "measure (\<lambda>(arr, low, high, compareFn, threshold). nat (high - low + 1))",
    goal_cases)
  case 1
  show ?case by simp
next
  case 2
  then show ?case
    by (auto dest!: partitionArr_bounds [OF sym])
next
  case 3
  then show ?case
    by (auto dest!: partitionArr_bounds [OF sym])
qed

text \<open>
  The public routine sorts a copy \<^verbatim>\<open>[...arr]\<close>; the copy and the address of the result
  are made explicit in the store model further down.
\<close>

declare quickSortHybrid.simps [simp del]

definition hybridQuickSort :: "'a list \<Rightarrow> 'a comparator \<Rightarrow> int \<Rightarrow> 'a list" where
  "hybridQuickSort arr compareFn threshold =
     quickSortHybrid arr 0 (int (length arr) - 1) compareFn threshold"


section \<open>Sort engine: adaptive run-merge sort\<close>

text \<open>\<^verbatim>\<open>arr.slice(start, end)\<close> for the non-negative bounds the merge passes.\<close>

definition js_slice :: "'a list \<Rightarrow> int \<Rightarrow> int \<Rightarrow> 'a list" where
  "js_slice arr b e = drop (nat b) (take (nat e) arr)"

text \<open>
  The first loop of \<^verbatim>\<open>merge\<close>: while both copies have elements left, the smaller head
  is written to \<^verbatim>\<open>arr[k++]\<close>, the left one on a tie.
\<close>

function merge_loop ::
  "'a comparator \<Rightarrow> 'a list \<Rightarrow> 'a list \<Rightarrow> nat \<Rightarrow> nat \<Rightarrow> int \<Rightarrow> 'a list
     \<Rightarrow> nat \<times> nat \<times> int \<times> 'a list" where
  "merge_loop compareFn leftArr rightArr i j k arr =
     (if i < length leftArr \<and> j < length rightArr then
        (if compareFn (leftArr ! i) (rightArr ! j) \<le> 0
         then merge_loop compareFn leftArr rightArr (i + 1) j (k + 1) (arr[nat k := leftArr ! i])
         else merge_loop compareFn leftArr rightArr i (j + 1) (k + 1) (arr[nat k := rightArr ! j]))
      else (i, j, k, arr))"
  by pat_completeness auto
termination
  by (relation "measure (\<lambda>(compareFn, leftArr, rightArr, i, j, k, arr).
        (length leftArr - i) + (length rightArr - j))") auto

text \<open>The two draining loops \<^verbatim>\<open>while (i < src.length) arr[k++] = src[i++]\<close>.\<close>

function copy_rest :: "'a list \<Rightarrow> nat \<Rightarrow> int \<Rightarrow> 'a list \<Rightarrow> int \<times> 'a list" where
  "copy_rest src i k arr =
     (if i < length src then copy_rest src (i + 1) (k + 1) (arr[nat k := src ! i])
      else (k, arr))"
  by pat_completeness auto
termination
  by (relation "measure (\<lambda>(src, i, k, arr). length src - i)") auto

definition merge :: "'a list \<Rightarrow> int \<Rightarrow> int \<Rightarrow> int \<Rightarrow> 'a comparator \<Rightarrow> 'a list" where
  "merge arr left mid right compareFn =
     (let leftArr = js_slice arr left (mid + 1);
          rightArr = js_slice arr (mid + 1) (right + 1)
      in case merge_loop compareFn leftArr rightArr 0 0 left arr of
           (i, j, k, arr1) \<Rightarrow>
             (case copy_rest leftArr i k arr1 of
                (k', arr2) \<Rightarrow> snd (copy_rest rightArr j k' arr2)))"

text \<open>
  The run loop \<^verbatim>\<open>for (let i = 0; i < n; i += minMerge)\<close> with \<open>minMerge = 32\<close>.
\<close>

function run_loop :: "'a comparator \<Rightarrow> int \<Rightarrow> int \<Rightarrow> 'a list \<Rightarrow> 'a list" where
  "run_loop compareFn n i arr =
     (if i < n
      then run_loop compareFn n (i + 32)
             (insertionSort arr i (min (i + 32 - 1) (n - 1)) compareFn)
      else arr)"
  by pat_completeness auto
termination
  by (relation "measure (\<lambda>(compareFn, n, i, arr). nat (n - i))") auto

text \<open>
  The merge loops. \<open>sz\<close> is the variable \<^verbatim>\<open>size\<close>. The inner loop
  \<^verbatim>\<open>for (let start = 0; start < n; start += size * 2)\<close> and the outer loop
  \<^verbatim>\<open>for (let size = minMerge; size < n; size *= 2)\<close> advance only for a positive
  \<open>sz\<close>; they are partial functions, and that they return for the \<open>sz\<close> of the routine
  is proved below.
\<close>

partial_function (option) merge_pass ::
  "'a comparator \<Rightarrow> int \<Rightarrow> int \<Rightarrow> int \<Rightarrow> 'a list \<Rightarrow> 'a list option" where
  "merge_pass compareFn n sz start arr =
     (if start < n then
        merge_pass compareFn n sz (start + sz * 2)
          (if start + sz - 1 < min (start + sz * 2 - 1) (n - 1)
           then merge arr start (start + sz - 1) (min (start + sz * 2 - 1) (n - 1)) compareFn
           else arr)
      else Some arr)"

partial_function (option) size_loop ::
  "'a comparator \<Rightarrow> int \<Rightarrow> int \<Rightarrow> 'a list \<Rightarrow> 'a list option" where
  "size_loop compareFn n sz arr =
     (if sz < n then
        Option.bind (merge_pass compareFn n sz 0 arr)
          (\<lambda>arr'. size_loop compareFn n (sz * 2) arr')
      else Some arr)"

definition timSort :: "'a list \<Rightarrow> 'a comparator \<Rightarrow> 'a list option" where
  "timSort arr compareFn =
     size_loop compareFn (int (length arr)) 32 (run_loop compareFn (int (length arr)) 0 arr)"

declare merge_loop.simps [simp del] copy_rest.simps [simp del] run_loop.simps [simp del]


section \<open>Sort engine: radix sort\<close>

text \<open>
  The array holds numbers; a slot the output of a pass never filled reads \<^verbatim>\<open>undefined\<close>
  (\<open>None\<close>). \<open>digit_index\<close> is \<^verbatim>\<open>Math.floor(arr[i] / exp) % 10\<close> when that is an index
  of the ten counters. The remainder has the sign of the quotient: for a negative
  quotient it is a negative number (or \<open>-0\<close>, which is index 0), and for \<^verbatim>\<open>undefined\<close>
  it is NaN; a negative or NaN key names a property that is no index, so neither the ten
  counters nor the slots of the output are touched.
\<close>

definition digit_index :: "int option \<Rightarrow> nat \<Rightarrow> nat option" where
  "digit_index v ex =
     (case v of
        None \<Rightarrow> None
      | Some x \<Rightarrow>
          (if 0 \<le> x div int ex then Some (nat ((x div int ex) mod 10))
           else if (- (x div int ex)) mod 10 = 0 then Some 0
           else None))"

definition count_digits :: "int option list \<Rightarrow> nat \<Rightarrow> int list" where
  "count_digits arr ex =
     fold (\<lambda>i cnt. case digit_index (arr ! i) ex of
                        None \<Rightarrow> cnt
                      | Some d \<Rightarrow> cnt[d := cnt ! d + 1])
       [0..<length arr] (replicate 10 0)"

definition prefix_sums :: "int list \<Rightarrow> int list" where
  "prefix_sums cnt = fold (\<lambda>i cnt. cnt[i := cnt ! i + cnt ! (i - 1)]) [1..<10] cnt"

text \<open>
  The backward loop that builds the output. A counter is at least 1 when its digit is
  met, so the slot \<^verbatim>\<open>count[digit] - 1\<close> is an index of the output.
\<close>

definition build_output ::
  "int option list \<Rightarrow> nat \<Rightarrow> int list \<Rightarrow> int option list \<times> int list" where
  "build_output arr ex cnt =
     fold (\<lambda>i (output, cnt).
             case digit_index (arr ! i) ex of
               None \<Rightarrow> (output, cnt)
             | Some d \<Rightarrow>
                 ((if 0 \<le> cnt ! d - 1 then output[nat (cnt ! d - 1) := arr ! i] else output),
                  cnt[d := cnt ! d - 1]))
       (rev [0..<length arr]) (replicate (length arr) None, cnt)"

definition countingSort :: "int option list \<Rightarrow> nat \<Rightarrow> int option list" where
  "countingSort arr ex =
     (let output = fst (build_output arr ex (prefix_sums (count_digits arr ex)))
      in fold (\<lambda>i arr. arr[i := output ! i]) [0..<length arr] arr)"

text \<open>
  The loop \<^verbatim>\<open>for (let exp = 1; Math.floor(max / exp) > 0; exp *= 10)\<close>; \<open>ex\<close> is the
  variable \<^verbatim>\<open>exp\<close>, a power of ten, never 0.
\<close>

function radix_loop :: "int \<Rightarrow> nat \<Rightarrow> int option list \<Rightarrow> int option list" where
  "radix_loop mx ex arr =
     (if 0 < mx div int ex then radix_loop mx (ex * 10) (countingSort arr ex) else arr)"
  by pat_completeness auto
termination
proof (relation "measure (\<lambda>(mx, ex, arr). nat mx + 1 - ex)", goal_cases)
  case 1
  show ?case by simp
next
  case (2 mx ex arr)
  then have "ex \<noteq> 0" by (auto intro: ccontr)
  moreover from 2 have "int ex \<le> mx"
    by (metis calculation div_pos_pos_trivial int_ops(1) linorder_not_less nat_int_comparison(2)
        not_less_iff_gr_or_eq of_nat_0_le_iff pos_imp_zdiv_neg_iff zero_less_iff_neq_zero
        zless_imp_add1_zle zle_add1_eq_le zle_int)
  ultimately show ?case by simp
qed

declare radix_loop.simps [simp del]

definition radixSort :: "int list \<Rightarrow> int option list result" where
  "radixSort arr =
     (if length arr \<le> 1 then Inr (map Some arr)
      else Inr (radix_loop (fold max arr (hd arr)) 1 (map Some arr)))"


section \<open>Sort engine: bucket sort\<close>

text \<open>
  The bucket of a grade:
  \<^verbatim>\<open>Math.min(Math.floor((grade - min) / bucketSize), bucketCount - 1)\<close>, a number that
  need not be an index: \<open>None\<close> when \<^verbatim>\<open>buckets[bucketIndex]\<close> is \<^verbatim>\<open>undefined\<close>.
\<close>

definition bucket_index :: "real \<Rightarrow> real \<Rightarrow> jsnum \<Rightarrow> nat \<Rightarrow> nat option" where
  "bucket_index grade mn bucketSize bucketCount =
     (case js_min (js_floor (js_div (Num (grade - mn)) bucketSize))
             (Num (real bucketCount - 1)) of
        Num x \<Rightarrow>
          (if 0 \<le> x \<and> x < real bucketCount \<and> x = of_int \<lfloor>x\<rfloor> then Some (nat \<lfloor>x\<rfloor>)
           else None)
      | _ \<Rightarrow> None)"

text \<open>
  The distribution \<^verbatim>\<open>grades.forEach(grade => buckets[bucketIndex].push(grade))\<close>:
  \<^verbatim>\<open>push\<close> on \<^verbatim>\<open>undefined\<close> throws.
\<close>

definition distribute ::
  "real list \<Rightarrow> real \<Rightarrow> jsnum \<Rightarrow> nat \<Rightarrow> real list list result" where
  "distribute grades mn bucketSize bucketCount =
     fold (\<lambda>grade acc.
             case acc of
               Inl e \<Rightarrow> Inl e
             | Inr buckets \<Rightarrow>
                 (case bucket_index grade mn bucketSize bucketCount of
                    None \<Rightarrow> Inl TypeError
                  | Some b \<Rightarrow> Inr (buckets[b := buckets ! b @ [grade]])))
       grades (Inr (replicate bucketCount []))"

text \<open>
  \<^verbatim>\<open>bucketSort\<close>; every bucket is sorted with \<^verbatim>\<open>(a, b) => a - b\<close> and the buckets are
  concatenated in order (an empty bucket adds nothing).
\<close>

definition bucketSort :: "real list \<Rightarrow> nat \<Rightarrow> real list result" where
  "bucketSort grades bucketCount =
     (if length grades \<le> 1 then Inr grades
      else
        (let mn = fold min grades (hd grades);
             mx = fold max grades (hd grades);
             bucketSize = js_div (Num (mx - mn)) (Num (real bucketCount))
         in case distribute grades mn bucketSize bucketCount of
              Inl e \<Rightarrow> Inl e
            | Inr buckets \<Rightarrow>
                Inr (fold (\<lambda>bucket result.
                             if length bucket > 0 then result @ sort bucket else result)
                       buckets [])))"


section \<open>Sort engine: topological sort of the courses\<close>

text \<open>
  The \<^verbatim>\<open>Course\<close> interface of the sort engine (the identifier \<^verbatim>\<open>id\<close> is
  \<open>course_id\<close>); \<^verbatim>\<open>prerequisites\<close> is optional.
\<close>

record course =
  course_id :: string
  course_name :: string
  prerequisites :: "string list option"

text \<open>\<^verbatim>\<open>course.prerequisites || []\<close>.\<close>

definition prereqs_of :: "course \<Rightarrow> string list" where
  "prereqs_of c = (case prerequisites c of None \<Rightarrow> [] | Some ps \<Rightarrow> ps)"

text \<open>The first pass: \<^verbatim>\<open>graph.set(course.id, ...)\<close> and \<^verbatim>\<open>inDegree.set(course.id, 0)\<close>.\<close>

definition build_graph :: "course list \<Rightarrow> (string \<times> string list) list" where
  "build_graph courses = fold (\<lambda>c graph. map_set graph (course_id c) (prereqs_of c)) courses []"

definition zero_degrees :: "course list \<Rightarrow> (string \<times> int) list" where
  "zero_degrees courses = fold (\<lambda>c inDegree. map_set inDegree (course_id c) 0) courses []"

text \<open>
  The second pass:
  \<^verbatim>\<open>inDegree.set(prereq, (inDegree.get(prereq) || 0) + 1)\<close> for every prerequisite of
  every course.
\<close>

definition count_degrees :: "course list \<Rightarrow> (string \<times> int) list \<Rightarrow> (string \<times> int) list" where
  "count_degrees courses inDegree0 =
     fold (\<lambda>c inDegree.
             fold (\<lambda>prereq inDegree.
                     map_set inDegree prereq
                       ((case map_of inDegree prereq of None \<Rightarrow> 0 | Some d \<Rightarrow> d) + 1))
               (prereqs_of c) inDegree)
       courses inDegree0"

text \<open>\<^verbatim>\<open>graph.get(currentId) || []\<close>.\<close>

definition neighbours :: "(string \<times> string list) list \<Rightarrow> string \<Rightarrow> string list" where
  "neighbours graph currentId = (case map_of graph currentId of None \<Rightarrow> [] | Some ns \<Rightarrow> ns)"

text \<open>
  One neighbour of the dequeued node: its in-degree is decremented and it is enqueued
  when the in-degree has become 0. Every neighbour is a prerequisite of some course, so
  the second pass has given it an in-degree and the read \<^verbatim>\<open>inDegree.get(neighbor)!\<close>
  is a number; for a key without entry the state is left as it is.
\<close>

definition relax ::
  "string \<Rightarrow> (string \<times> int) list \<times> string list \<Rightarrow> (string \<times> int) list \<times> string list" where
  "relax neighbor state =
     (case state of
        (inDegree, queue) \<Rightarrow>
          (case map_of inDegree neighbor of
             None \<Rightarrow> (inDegree, queue)
           | Some d \<Rightarrow>
               (map_set inDegree neighbor (d - 1),
                if d - 1 = 0 then queue @ [neighbor] else queue)))"

text \<open>The termination measure of the queue loop: queued nodes plus positive in-degrees.\<close>

definition pending :: "(string \<times> int) list \<times> string list \<Rightarrow> nat" where
  "pending state =
     (case state of (inDegree, queue) \<Rightarrow> length queue + length (filter (\<lambda>(k, d). 0 < d) inDegree))"

lemma positive_map_set:
  "map_of m k = Some d \<Longrightarrow>
   length (filter (\<lambda>(k, d). 0 < d) (map_set m k d')) + (if 0 < d then 1 else 0)
     = length (filter (\<lambda>(k, d). (0::int) < d) m) + (if 0 < d' then 1 else 0)"
  by (induction m) (auto split: if_splits)

lemma pending_relax: "pending (relax neighbor state) \<le> pending state"
proof (cases state)
  case (Pair inDegree queue)
  show ?thesis
  proof (cases "map_of inDegree neighbor")
    case None
    with Pair show ?thesis by (simp add: relax_def)
  next
    case (Some d)
    show ?thesis
    proof (cases "d = 1")
      case True
      with positive_map_set [OF Some, of 0] Pair Some show ?thesis
        by (simp add: relax_def pending_def)
    next
      case False
      with positive_map_set [OF Some, of "d - 1"] Pair Some show ?thesis
        by (auto simp: relax_def pending_def split: if_splits)
    qed
  qed
qed

lemma pending_fold_relax: "pending (fold relax ns state) \<le> pending state"
proof (induction ns arbitrary: state)
  case Nil
  show ?case by simp
next
  case (Cons n ns)
  have "pending (fold relax ns (relax n state)) \<le> pending (relax n state)"
    by (rule Cons.IH)
  also have "\<dots> \<le> pending state"
    by (rule pending_relax)
  finally show ?case by simp
qed

lemma pending_fold_relax_eq:
  assumes "(inDegree', queue') = fold relax ns (inDegree, queue)"
  shows "length queue' + length (filter (\<lambda>(k, d). 0 < d) inDegree')
           \<le> length queue + length (filter (\<lambda>(k, d). 0 < d) inDegree)"
  using pending_fold_relax [of ns "(inDegree, queue)"] assms [symmetric]
  by (simp add: pending_def)

text \<open>
  The queue loop (Kahn's algorithm).
  \<^verbatim>\<open>courses.find(c => c.id === currentId)!\<close> is \<^verbatim>\<open>undefined\<close> (\<open>None\<close>) for an
  identifier that is a prerequisite but no course.
\<close>

function kahn_loop ::
  "course list \<Rightarrow> (string \<times> string list) list \<Rightarrow> (string \<times> int) list \<Rightarrow> string list
     \<Rightarrow> course option list \<Rightarrow> course option list" where
  "kahn_loop courses graph inDegree queue result =
     (case queue of
        [] \<Rightarrow> result
      | currentId # rest \<Rightarrow>
          (case fold relax (neighbours graph currentId) (inDegree, rest) of
             (inDegree', queue') \<Rightarrow>
               kahn_loop courses graph inDegree' queue'
                 (result @ [find (\<lambda>c. course_id c = currentId) courses])))"
  by pat_completeness auto
termination
proof (relation "measure (\<lambda>(courses, graph, inDegree, queue, result). pending (inDegree, queue))",
    goal_cases)
  case 1
  show ?case by simp
next
  case 2
  then show ?case
    by (auto simp: pending_def dest!: pending_fold_relax_eq)
qed

declare kahn_loop.simps [simp del]

text \<open>
  \<^verbatim>\<open>topologicalSort\<close>; the queue starts with the keys of in-degree 0 in insertion
  order. No statement of the routine throws.
\<close>

definition topologicalSort :: "course list \<Rightarrow> course option list result" where
  "topologicalSort courses =
     (let graph = build_graph courses;
          inDegree = count_degrees courses (zero_degrees courses);
          queue = map fst (filter (\<lambda>(courseId, degree). degree = 0) inDegree)
      in Inr (kahn_loop courses graph inDegree queue []))"


section \<open>Search engine: fuzzy search\<close>

text \<open>
  Strings are lists of characters and \<^verbatim>\<open>toLowerCase\<close> is modelled on the ASCII
  letters.
\<close>

definition lower_char :: "char \<Rightarrow> char" where
  "lower_char c =
     (if 65 \<le> (of_char c :: nat) \<and> (of_char c :: nat) \<le> 90
      then char_of (of_char c + 32 :: nat) else c)"

definition toLowerCase :: "string \<Rightarrow> string" where
  "toLowerCase s = map lower_char s"

text \<open>
  \<^verbatim>\<open>levenshteinDistance\<close>: the matrix has \<^verbatim>\<open>str2.length + 1\<close> rows of
  \<^verbatim>\<open>str1.length + 1\<close> cells, filled with \<^verbatim>\<open>null\<close> (here 0; no cell is read before it
  is written), then the first row, the first column, and the remaining cells row by row.
\<close>

definition fill_cell :: "'c list \<Rightarrow> 'c list \<Rightarrow> nat \<Rightarrow> nat \<Rightarrow> nat list list \<Rightarrow> nat list list" where
  "fill_cell str1 str2 j i matrix =
     (let indicator = (if str1 ! (i - 1) = str2 ! (j - 1) then 0 else 1)
      in matrix[j := (matrix ! j)[i :=
           min (min (matrix ! j ! (i - 1) + 1) (matrix ! (j - 1) ! i + 1))
               (matrix ! (j - 1) ! (i - 1) + indicator)]])"

definition levenshteinDistance :: "'c list \<Rightarrow> 'c list \<Rightarrow> nat" where
  "levenshteinDistance str1 str2 =
     (let matrix0 = replicate (length str2 + 1) (replicate (length str1 + 1) 0);
          matrix1 = fold (\<lambda>i matrix. matrix[0 := (matrix ! 0)[i := i]])
                      [0..<length str1 + 1] matrix0;
          matrix2 = fold (\<lambda>j matrix. matrix[j := (matrix ! j)[0 := j]])
                      [0..<length str2 + 1] matrix1;
          matrix3 = fold (\<lambda>j matrix. fold (\<lambda>i matrix. fill_cell str1 str2 j i matrix)
                                         [1..<length str1 + 1] matrix)
                      [1..<length str2 + 1] matrix2
      in matrix3 ! length str2 ! length str1)"

definition searchableText :: "student \<Rightarrow> string" where
  "searchableText s =
     toLowerCase (firstName s @ '' '' @ lastName s @ '' '' @ email s @ '' '' @ rollNo s)"

text \<open>
  The score of a record. The searchable text holds three blanks at least, so
  \<open>maxLength\<close> is not 0.
\<close>

definition similarity :: "string \<Rightarrow> student \<Rightarrow> real" where
  "similarity query s =
     (let queryLower = toLowerCase query;
          distance = levenshteinDistance queryLower (searchableText s);
          maxLength = max (length queryLower) (length (searchableText s))
      in 1 - real distance / real maxLength)"

text \<open>
  \<^verbatim>\<open>fuzzySearch\<close>: the records that reach the threshold, with their scores, sorted by
  \<^verbatim>\<open>(a, b) => b.score - a.score\<close>. \<^verbatim>\<open>Array.prototype.sort\<close> is stable; with this
  comparator it is the stable sort on the negated score.
\<close>

definition fuzzySearch :: "student list \<Rightarrow> string \<Rightarrow> real \<Rightarrow> student list" where
  "fuzzySearch students query threshold =
     map fst
       (sort_key (\<lambda>(s, score). - score)
          (filter (\<lambda>(s, score). threshold \<le> score)
             (map (\<lambda>s. (s, similarity query s)) students)))"

text \<open>
  The distance the routine is specified by: the classic recurrence with cost 1 for an
  insertion, a deletion and a substitution, between the first \<open>i\<close> characters of one
  string and the first \<open>j\<close> characters of the other.
\<close>

fun edit_distance :: "'c list \<Rightarrow> 'c list \<Rightarrow> nat \<Rightarrow> nat \<Rightarrow> nat" where
  "edit_distance s t 0 j = j"
| "edit_distance s t (Suc i) 0 = Suc i"
| "edit_distance s t (Suc i) (Suc j) =
     min (min (edit_distance s t i (Suc j) + 1) (edit_distance s t (Suc i) j + 1))
         (edit_distance s t i j + (if s ! i = t ! j then 0 else 1))"


section \<open>The sort routines on a store of arrays\<close>

text \<open>
  Which array a routine writes to is a matter of references. A store is the list of the
  arrays allocated so far and a reference is a position in it; an allocation appends.
  \<^verbatim>\<open>[...arr]\<close> allocates a copy; an in-place helper called on a reference rewrites the
  array at that position and no other.
\<close>

type_synonym 'a store = "'a list list"

definition alloc :: "'a store \<Rightarrow> 'a list \<Rightarrow> nat \<times> 'a store" where
  "alloc s arr = (length s, s @ [arr])"

definition hybridQuickSort_st :: "'a store \<Rightarrow> nat \<Rightarrow> 'a comparator \<Rightarrow> int \<Rightarrow> nat \<times> 'a store" where
  "hybridQuickSort_st s arr compareFn threshold =
     (case alloc s (s ! arr) of
        (result, s1) \<Rightarrow>
          (result,
           s1[result := quickSortHybrid (s1 ! result) 0 (int (length (s1 ! result)) - 1)
                          compareFn threshold]))"

definition timSort_st :: "'a store \<Rightarrow> nat \<Rightarrow> 'a comparator \<Rightarrow> (nat \<times> 'a store) option" where
  "timSort_st s arr compareFn =
     (case alloc s (s ! arr) of
        (result, s1) \<Rightarrow>
          (let n = int (length (s1 ! result));
               s2 = s1[result := run_loop compareFn n 0 (s1 ! result)]
           in map_option (\<lambda>merged. (result, s2[result := merged]))
                (size_loop compareFn n 32 (s2 ! result))))"

text \<open>
  The arrays of the store of \<^verbatim>\<open>radixSort\<close> hold numbers or \<^verbatim>\<open>undefined\<close>; the input
  is a \<^verbatim>\<open>number[]\<close>, all of whose slots are numbers.
\<close>

definition radixSort_st :: "int option store \<Rightarrow> nat \<Rightarrow> nat result \<times> int option store" where
  "radixSort_st s arr =
     (if length (s ! arr) \<le> 1 then (case alloc s (s ! arr) of (copy, s1) \<Rightarrow> (Inr copy, s1))
      else
        (case alloc s (s ! arr) of
           (result, s1) \<Rightarrow>
             (let mx = fold max (map the (s1 ! result)) (the (hd (s1 ! result)))
              in (Inr result, s1[result := radix_loop mx 1 (s1 ! result)]))))"

text \<open>
  \<^verbatim>\<open>bucketSort\<close> only reads \<^verbatim>\<open>grades\<close>. The buckets and the accumulator of the
  final \<^verbatim>\<open>reduce\<close> are arrays the call allocates itself; of these only the returned one
  is kept in the store here.
\<close>

definition bucketSort_st :: "real store \<Rightarrow> nat \<Rightarrow> nat \<Rightarrow> nat result \<times> real store" where
  "bucketSort_st s grades bucketCount =
     (case bucketSort (s ! grades) bucketCount of
        Inl e \<Rightarrow> (Inl e, s)
      | Inr sorted_grades \<Rightarrow> (case alloc s sorted_grades of (result, s1) \<Rightarrow> (Inr result, s1)))"


text \<open>
  The prerequisite edges of a course collection, as the specification speaks of them: an
  edge goes from the identifier of a course to each of its prerequisites, and a node is
  on a cycle when a non-empty path of edges leads from it back to itself.
\<close>

definition edge :: "course list \<Rightarrow> string \<Rightarrow> string \<Rightarrow> bool" where
  "edge courses p x \<longleftrightarrow> (\<exists>c \<in> set courses. course_id c = p \<and> x \<in> set (prereqs_of c))"

definition on_cycle :: "course list \<Rightarrow> string \<Rightarrow> bool" where
  "on_cycle courses x \<longleftrightarrow> (edge courses)\<^sup>+\<^sup>+ x x"

definition two_cycle :: "course list" where
  "two_cycle =
     [\<lparr> course_id = ''A'', course_name = ''Algebra'', prerequisites = Some [''B''] \<rparr>,
      \<lparr> course_id = ''B'', course_name = ''Basics'', prerequisites = Some [''A''] \<rparr>]"


text \<open>The in-degree of a key, 0 for a key without entry.\<close>

definition degree_val :: "(string \<times> int) list \<Rightarrow> string \<Rightarrow> int" where
  "degree_val inDegree x = (case map_of inDegree x of None \<Rightarrow> 0 | Some d \<Rightarrow> d)"

text \<open>All prerequisite occurrences of a collection, in order.\<close>

definition all_prereqs :: "course list \<Rightarrow> string list" where
  "all_prereqs courses = concat (map prereqs_of courses)"

text \<open>What the processed nodes \<open>ps\<close> have taken from the in-degree of \<open>x\<close>.\<close>

definition spent :: "(string \<times> string list) list \<Rightarrow> string list \<Rightarrow> string \<Rightarrow> int" where
  "spent graph ps x = (\<Sum>d\<leftarrow>ps. int (count_list (neighbours graph d) x))"

text \<open>
  Between two rounds (\<open>kahn_inv\<close>): the queued and the processed nodes \<open>ps\<close> are
  pairwise distinct and have an in-degree of at most 0; a node on a cycle is neither
  queued nor processed, and its in-degree is the number of its occurrences as a
  prerequisite less what the processed nodes have taken. Within a round (\<open>kahn_mid\<close>)
  the dequeued node \<open>c\<close> has taken the neighbours \<open>dn\<close> so far.
\<close>

definition kahn_mid ::
  "course list \<Rightarrow> (string \<times> int) list \<Rightarrow> string list \<Rightarrow> string list \<Rightarrow> string \<Rightarrow> string list
     \<Rightarrow> bool" where
  "kahn_mid courses inDegree queue ps c dn \<longleftrightarrow>
     distinct (queue @ ps @ [c]) \<and>
     (\<forall>d \<in> set (queue @ ps @ [c]). \<exists>v. map_of inDegree d = Some v \<and> v \<le> 0) \<and>
     (\<forall>x. on_cycle courses x \<longrightarrow>
        x \<notin> set (queue @ ps @ [c]) \<and>
        map_of inDegree x =
          Some (int (count_list (all_prereqs courses) x) - spent (build_graph courses) ps x
                - int (count_list dn x)))"

definition kahn_inv ::
  "course list \<Rightarrow> (string \<times> int) list \<Rightarrow> string list \<Rightarrow> string list \<Rightarrow> bool" where
  "kahn_inv courses inDegree queue ps \<longleftrightarrow>
     distinct (queue @ ps) \<and>
     (\<forall>d \<in> set (queue @ ps). \<exists>v. map_of inDegree d = Some v \<and> v \<le> 0) \<and>
     (\<forall>x. on_cycle courses x \<longrightarrow>
        x \<notin> set (queue @ ps) \<and>
        map_of inDegree x =
          Some (int (count_list (all_prereqs courses) x) - spent (build_graph courses) ps x))"

section \<open>Exact pattern positions: a missed occurrence\<close>

text \<open>
  C7. The pattern \<open>ab\<close> stands at offset 1 of the text \<open>aab\<close>, and the search returns no
  offset at all: after the mismatch at \<open>j = 1\<close> the text character \<open>a\<close> has table entry 0,
  which \<^verbatim>\<open>|| -1\<close> replaces by \<open>-1\<close>, so the scan shifts by 2 and steps over the
  occurrence.
\<close>

theorem boyerMooreSearch_misses_occurrence:
  "boyerMooreSearch ''aab'' ''ab'' = Some [] \<and> occurrences ''aab'' ''ab'' = [1]"
  by (simp add: boyerMooreSearch_def bm_loop.simps buildBadCharTable_def match_shift_def
      mismatch_shift_def table_get_def js_at_def occurrences_def occurs_at_def upt_rec)


section \<open>Ridge confidence: zero variance\<close>

text \<open>
  C9. With one sample whose target is predicted exactly, the mean squared error and the
  variance of the targets are both 0; the quotient is NaN and \<^verbatim>\<open>Math.max(0, NaN)\<close> is
  NaN, not 0.
\<close>

theorem calculateConfidence_zero_variance_NaN:
  "calculateConfidence [[1]] [3] [3, 0] = NaN"
  by (simp add: calculateConfidence_def predict_def variance_def js_at_num_def js_sub_def
      numeral_2_eq_2)


section \<open>Descriptive statistics: the empty and the singleton sample\<close>

lemma calculatePercentile_singleton:
  "calculatePercentile [v] 25 = v" "calculatePercentile [v] 75 = v"
  by (simp_all add: calculatePercentile_def)

lemma js_pow_NaN: "js_pow NaN 3 = NaN" "js_pow NaN 4 = NaN"
  by (simp_all add: eval_nat_numeral)

text \<open>
  C4. Statistics of the empty array are refused with the explicit error; for the
  singleton \<open>[5]\<close> mean and median are 5, variance and standard deviation are 0 and no
  value is an outlier. (Skewness and kurtosis divide 0 by the zero deviation and are NaN.)
\<close>

theorem calculateStatistics_empty_and_singleton:
  "calculateStatistics [] = Inl (Error ''Cannot calculate statistics for empty array'') \<and>
   calculateStatistics [5] =
     Inr \<lparr> s_count = 1, s_sum = 5, s_mean = 5, s_median = 5, s_mode = [5], s_variance = 0,
           s_standardDeviation = 0, s_min = 5, s_max = 5, s_range = 0, s_q1 = 5, s_q3 = 5,
           s_iqr = 0, s_skewness = NaN, s_kurtosis = NaN, s_outliers = [] \<rparr>"
  by (simp add: calculateStatistics_def calculatePercentile_singleton js_pow_NaN
      detectOutliers_def frequency_table_def js_sub_def Let_def)


section \<open>k-means: the first convergence test\<close>

text \<open>
  The assignments start as \<^verbatim>\<open>new Array(n)\<close>, all slots empty, so the convergence test
  of the first round compares nothing and succeeds: the loop is left before any
  assignment is stored.
\<close>

lemma arraysEqual_empty_slots:
  "arraysEqual (replicate n None) b \<longleftrightarrow> length b = n"
  by (auto simp: arraysEqual_def list_all_iff)

lemma kmeans_loop_leaves_at_once:
  "kmeans_loop points k maxIterations 0 cs (replicate (length points) None)
     = Inr (cs, replicate (length points) None)"
  by (simp add: arraysEqual_empty_slots)

lemma group_clusters_fold_empty_slots:
  "m \<le> n \<Longrightarrow>
   fold (\<lambda>studentIndex acc.
             case acc of
               Inl e \<Rightarrow> Inl e
             | Inr groups \<Rightarrow>
                 (case replicate n None ! studentIndex of
                    None \<Rightarrow> Inr groups
                  | Some clusterIndex \<Rightarrow>
                      (if clusterIndex < length groups
                       then Inr (groups[clusterIndex := groups ! clusterIndex @ [studentIndex]])
                       else Inl TypeError)))
       [0..<m] (Inr cl) = Inr cl"
  by (induction m) auto

lemma group_clusters_empty_slots:
  "group_clusters k (replicate n None) = Inr (replicate k [])"
  by (simp add: group_clusters_def group_clusters_fold_empty_slots)

lemma fold_thrown:
  "fold (\<lambda>index acc. case acc of Inl e \<Rightarrow> Inl e | Inr v \<Rightarrow> f index v) xs (Inl e) = Inl e"
  by (induction xs) auto

lemma calculateInertia_empty_slots:
  assumes "points \<noteq> []" and "points ! 0 \<noteq> []"
  shows "calculateInertia points cs (replicate (length points) None) = Inl TypeError"
proof -
  from assms(1) have range: "[0..<length points] = 0 # [1..<length points]"
    by (simp add: upt_rec)
  show ?thesis
    unfolding calculateInertia_def range
    using assms by (simp add: js_at_def euclideanDistance_def fold_thrown)
qed

text \<open>
  Whatever the records, the number of clusters, the random draws and the iteration bound:
  with at least one record and at least one feature the call throws while it computes
  the inertia, because \<^verbatim>\<open>centroids[assignments[0]]\<close> is \<^verbatim>\<open>undefined\<close>.
\<close>

lemma kMeansClustering_throws:
  assumes "students \<noteq> []" and "features \<noteq> []"
  shows "kMeansClustering parseFloat random students k features maxIterations = Inl TypeError"
proof -
  define points where
    "points = map (\<lambda>s. map (\<lambda>feature. extractNumericFeature parseFloat s feature) features) students"
  from assms have ne: "points \<noteq> []" and ne0: "points ! 0 \<noteq> []"
    by (auto simp: points_def nth_map neq_Nil_conv)
  from ne have "\<exists>cs0. initializeCentroids random points k = Inr cs0"
    by (cases points) (simp_all add: initializeCentroids_def)
  then obtain cs0 where init: "initializeCentroids random points k = Inr cs0" ..
  show ?thesis
    unfolding kMeansClustering_def Let_def points_def [symmetric]
    by (simp add: init kmeans_loop_leaves_at_once group_clusters_empty_slots
        calculateInertia_empty_slots [OF ne ne0] del: kmeans_loop.simps)
qed

text \<open>
  C5. One record, one cluster, the feature \<open>gpa\<close>, the default 100 iterations: the call
  does not return a result, it throws a TypeError.
\<close>

theorem kMeansClustering_throws_TypeError:
  "kMeansClustering (\<lambda>t. NaN) (\<lambda>i d. 0) [sample_student] 1 [''gpa''] 100 = Inl TypeError"
  by (rule kMeansClustering_throws) simp_all


section \<open>The sort routines and the caller's array\<close>

text \<open>
  Each routine allocates its result: the reference it returns is the first position
  beyond the store it was called in, and every array of that store, the input among
  them, is what it was.
\<close>

lemma hybridQuickSort_st_frame:
  assumes "arr < length s"
    and "hybridQuickSort_st s arr compareFn threshold = (result, s')"
  shows "result = length s \<and> length s' = Suc (length s) \<and> take (length s) s' = s
         \<and> s' ! result = hybridQuickSort (s ! arr) compareFn threshold"
  using assms
  by (auto simp: hybridQuickSort_st_def alloc_def hybridQuickSort_def nth_append)

lemma timSort_st_frame:
  assumes "arr < length s"
    and "timSort_st s arr compareFn = Some (result, s')"
  shows "result = length s \<and> length s' = Suc (length s) \<and> take (length s) s' = s
         \<and> timSort (s ! arr) compareFn = Some (s' ! result)"
  using assms
  by (auto simp: timSort_st_def alloc_def timSort_def nth_append Let_def)

lemma timSort_st_returns:
  "(\<exists>r. timSort_st s arr compareFn = Some r) \<longleftrightarrow> (\<exists>r. timSort (s ! arr) compareFn = Some r)"
  by (auto simp: timSort_st_def alloc_def timSort_def nth_append Let_def)

lemma radixSort_st_frame:
  assumes "arr < length s"
  shows "\<exists>s'. radixSort_st s arr = (Inr (length s), s') \<and> length s' = Suc (length s)
           \<and> take (length s) s' = s"
  using assms
  by (auto simp: radixSort_st_def alloc_def Let_def)

lemma radixSort_st_result:
  assumes "arr < length s" and "s ! arr = map Some xs"
    and "radixSort_st s arr = (Inr result, s')"
  shows "radixSort xs = Inr (s' ! result)"
  using assms
  by (cases xs) (auto simp: radixSort_st_def alloc_def Let_def radixSort_def nth_append comp_def
        split: if_splits)

text \<open>
  \<^verbatim>\<open>bucketSort\<close> leaves the store it was called in as it was, too; but it need not
  return.
\<close>

lemma bucketSort_st_frame:
  assumes "grades < length s"
    and "bucketSort_st s grades bucketCount = (r, s')"
  shows "take (length s) s' = s \<and>
    (case r of Inl e \<Rightarrow> s' = s \<and> bucketSort (s ! grades) bucketCount = Inl e
     | Inr result \<Rightarrow> result = length s \<and> length s' = Suc (length s)
          \<and> bucketSort (s ! grades) bucketCount = Inr (s' ! result))"
  using assms
  by (auto simp: bucketSort_st_def alloc_def split: sum.splits)

text \<open>
  C10. Called on the array \<open>[3, 3]\<close> with the default ten buckets, \<^verbatim>\<open>bucketSort\<close>
  returns no array: all grades are equal, the bucket size is 0, the bucket index is
  \<^verbatim>\<open>Math.floor(0 / 0)\<close> = NaN, \<^verbatim>\<open>buckets[NaN]\<close> is \<^verbatim>\<open>undefined\<close> and \<^verbatim>\<open>push\<close>
  throws. The input array is unchanged.
\<close>

theorem bucketSort_st_throws_on_equal_grades:
  "bucketSort_st [[3, 3]] 0 10 = (Inl TypeError, [[3, 3]])"
  by (simp add: bucketSort_st_def bucketSort_def distribute_def bucket_index_def)


section \<open>Topological sort: courses on a cycle are left out\<close>

subsection \<open>Insertion-ordered maps\<close>

lemma map_of_map_set: "map_of (map_set m k v) = (map_of m)(k \<mapsto> v)"
  by (induction m) (auto simp: fun_eq_iff)

lemma keys_map_set:
  "map fst (map_set m k v) = (if k \<in> set (map fst m) then map fst m else map fst m @ [k])"
  by (induction m) force+

lemma distinct_map_set: "distinct (map fst m) \<Longrightarrow> distinct (map fst (map_set m k v))"
  by (simp add: keys_map_set)

subsection \<open>The in-degrees before the queue loop\<close>

lemma count_one_course:
  "distinct (map fst inDegree) \<Longrightarrow>
   distinct (map fst (fold (\<lambda>prereq inDegree.
                     map_set inDegree prereq
                       ((case map_of inDegree prereq of None \<Rightarrow> 0 | Some d \<Rightarrow> d) + 1)) ps inDegree))
   \<and> degree_val (fold (\<lambda>prereq inDegree.
                     map_set inDegree prereq
                       ((case map_of inDegree prereq of None \<Rightarrow> 0 | Some d \<Rightarrow> d) + 1)) ps inDegree) x
       = degree_val inDegree x + int (count_list ps x)
   \<and> (map_of (fold (\<lambda>prereq inDegree.
                     map_set inDegree prereq
                       ((case map_of inDegree prereq of None \<Rightarrow> 0 | Some d \<Rightarrow> d) + 1)) ps inDegree) x = None
        \<longleftrightarrow> map_of inDegree x = None \<and> x \<notin> set ps)"
proof (induction ps arbitrary: inDegree)
  case Nil
  then show ?case by simp
next
  case (Cons p ps)
  let ?d1 = "map_set inDegree p ((case map_of inDegree p of None \<Rightarrow> 0 | Some d \<Rightarrow> d) + 1)"
  from Cons.prems have "distinct (map fst ?d1)" by (rule distinct_map_set)
  from Cons.IH [OF this] show ?case
    by (auto simp: degree_val_def map_of_map_set)
qed

lemma count_degrees_props:
  "distinct (map fst inDegree) \<Longrightarrow>
   distinct (map fst (count_degrees courses inDegree))
   \<and> degree_val (count_degrees courses inDegree) x
       = degree_val inDegree x + int (count_list (all_prereqs courses) x)
   \<and> (map_of (count_degrees courses inDegree) x = None
        \<longleftrightarrow> map_of inDegree x = None \<and> x \<notin> set (all_prereqs courses))"
proof (induction courses arbitrary: inDegree)
  case Nil
  then show ?case by (simp add: count_degrees_def all_prereqs_def)
next
  case (Cons c courses)
  let ?d1 = "fold (\<lambda>prereq inDegree.
                     map_set inDegree prereq
                       ((case map_of inDegree prereq of None \<Rightarrow> 0 | Some d \<Rightarrow> d) + 1))
               (prereqs_of c) inDegree"
  note one = count_one_course [OF Cons.prems, of "prereqs_of c" x]
  from one have "distinct (map fst ?d1)" by simp
  from Cons.IH [OF this] one show ?case
    by (simp add: count_degrees_def all_prereqs_def)
qed

lemma zero_degrees_props:
  "distinct (map fst (zero_degrees courses)) \<and> degree_val (zero_degrees courses) x = 0"
proof -
  have "distinct (map fst inDegree) \<Longrightarrow> degree_val inDegree x = 0 \<Longrightarrow>
        distinct (map fst (fold (\<lambda>c inDegree. map_set inDegree (course_id c) 0) courses inDegree))
        \<and> degree_val (fold (\<lambda>c inDegree. map_set inDegree (course_id c) 0) courses inDegree) x = 0"
    for inDegree
  proof (induction courses arbitrary: inDegree)
    case Nil
    then show ?case by simp
  next
    case (Cons c courses)
    have "distinct (map fst (map_set inDegree (course_id c) 0))"
      using Cons.prems(1) by (rule distinct_map_set)
    moreover have "degree_val (map_set inDegree (course_id c) 0) x = 0"
      using Cons.prems(2) by (simp add: degree_val_def map_of_map_set)
    ultimately show ?case
      using Cons.IH [of "map_set inDegree (course_id c) 0"] by simp
  qed
  from this [of "[]"] show ?thesis
    by (simp add: zero_degrees_def degree_val_def)
qed

lemma initial_degrees:
  "distinct (map fst (count_degrees courses (zero_degrees courses)))"
  "x \<in> set (all_prereqs courses) \<Longrightarrow>
     map_of (count_degrees courses (zero_degrees courses)) x
       = Some (int (count_list (all_prereqs courses) x))"
proof -
  note z = zero_degrees_props [of courses x]
  note c = count_degrees_props [OF z [THEN conjunct1], of courses x]
  from c show "distinct (map fst (count_degrees courses (zero_degrees courses)))" by simp
  assume "x \<in> set (all_prereqs courses)"
  with c z show "map_of (count_degrees courses (zero_degrees courses)) x
       = Some (int (count_list (all_prereqs courses) x))"
    by (auto simp: degree_val_def split: option.splits)
qed

subsection \<open>What the processed nodes have taken from an in-degree\<close>

lemma spent_append: "spent graph (ps @ qs) x = spent graph ps x + spent graph qs x"
  by (simp add: spent_def)

lemma neighbours_map_set:
  "neighbours (map_set graph k v) d = (if d = k then v else neighbours graph d)"
  by (simp add: neighbours_def map_of_map_set)

lemma spent_map_set:
  "distinct ps \<Longrightarrow>
   spent (map_set graph k v) ps x
     \<le> spent graph ps x + (if k \<in> set ps then int (count_list v x) else 0)"
  by (induction ps) (auto simp: spent_def neighbours_map_set)

lemma build_graph_snoc:
  "build_graph (courses @ [c]) = map_set (build_graph courses) (course_id c) (prereqs_of c)"
  by (simp add: build_graph_def)

lemma all_prereqs_snoc: "all_prereqs (courses @ [c]) = all_prereqs courses @ prereqs_of c"
  by (simp add: all_prereqs_def)

text \<open>
  The prerequisites listed by courses whose identifier is not among the processed nodes
  are never taken from an in-degree.
\<close>

lemma spent_bound_general:
  assumes "distinct ps"
  shows "spent (build_graph courses) ps x
           + (\<Sum>c\<leftarrow>filter (\<lambda>c. course_id c \<notin> set ps) courses. int (count_list (prereqs_of c) x))
         \<le> int (count_list (all_prereqs courses) x)"
proof (induction courses rule: rev_induct)
  case Nil
  show ?case by (simp add: build_graph_def all_prereqs_def spent_def neighbours_def)
next
  case (snoc c courses)
  from spent_map_set [OF assms, of "build_graph courses" "course_id c" "prereqs_of c" x] snoc
  show ?case
    by (auto simp: build_graph_snoc all_prereqs_snoc split: if_splits)
qed

lemma spent_bound:
  assumes "distinct ps" and "c \<in> set courses" and "course_id c \<notin> set ps"
    and "x \<in> set (prereqs_of c)"
  shows "spent (build_graph courses) ps x + 1 \<le> int (count_list (all_prereqs courses) x)"
proof -
  let ?keep = "filter (\<lambda>c. course_id c \<notin> set ps) courses"
  from assms have "c \<in> set ?keep" by simp
  then have "int (count_list (prereqs_of c) x) \<le> (\<Sum>c\<leftarrow>?keep. int (count_list (prereqs_of c) x))"
    by (intro member_le_sum_list) auto
  moreover from assms(4) have "count_list (prereqs_of c) x \<noteq> 0"
    by (simp add: count_list_0_iff)
  then have "1 \<le> int (count_list (prereqs_of c) x)"
    by simp
  ultimately show ?thesis
    using spent_bound_general [OF assms(1), of courses x] by linarith
qed

lemma on_cycle_predecessor:
  assumes "on_cycle courses x"
  shows "\<exists>c \<in> set courses. on_cycle courses (course_id c) \<and> x \<in> set (prereqs_of c)"
proof -
  from assms have "(edge courses)\<^sup>+\<^sup>+ x x" by (simp add: on_cycle_def)
  then have "\<exists>p. edge courses p x \<and> (edge courses)\<^sup>+\<^sup>+ p p"
  proof (cases rule: tranclp.cases)
    case r_into_trancl
    with \<open>(edge courses)\<^sup>+\<^sup>+ x x\<close> show ?thesis by blast
  next
    case (trancl_into_trancl p)
    then have "(edge courses)\<^sup>+\<^sup>+ p p"
      by (meson tranclp.r_into_trancl tranclp_trans)
    with trancl_into_trancl show ?thesis by blast
  qed
  then show ?thesis
    by (auto simp: edge_def on_cycle_def)
qed

subsection \<open>The invariant of the queue loop\<close>

lemma kahn_inv_dequeue:
  "kahn_inv courses inDegree (c # rest) ps \<Longrightarrow> kahn_mid courses inDegree rest ps c []"
  by (auto simp: kahn_inv_def kahn_mid_def)

lemma kahn_mid_done:
  "kahn_mid courses inDegree queue ps c (neighbours (build_graph courses) c)
     \<Longrightarrow> kahn_inv courses inDegree queue (ps @ [c])"
  by (auto simp: kahn_inv_def kahn_mid_def spent_append spent_def)

lemma cycle_node_degree:
  assumes mid: "kahn_mid courses inDegree queue ps c dn"
    and nb: "neighbours (build_graph courses) c = dn @ n # todo"
    and cyc: "on_cycle courses n"
  shows "\<exists>v. map_of inDegree n = Some v \<and> 2 \<le> v"
proof -
  from on_cycle_predecessor [OF cyc] obtain c' where
    c': "c' \<in> set courses" "on_cycle courses (course_id c')" "n \<in> set (prereqs_of c')"
    by blast
  from mid c'(2) have "course_id c' \<notin> set (ps @ [c])"
    by (auto simp: kahn_mid_def)
  moreover from mid have "distinct (ps @ [c])"
    by (auto simp: kahn_mid_def)
  ultimately have "spent (build_graph courses) (ps @ [c]) n + 1
      \<le> int (count_list (all_prereqs courses) n)"
    using c' by (intro spent_bound)
  then have "spent (build_graph courses) ps n + int (count_list dn n) + 2
      \<le> int (count_list (all_prereqs courses) n)"
    by (simp add: spent_append spent_def nb)
  moreover from mid cyc have "map_of inDegree n =
      Some (int (count_list (all_prereqs courses) n) - spent (build_graph courses) ps n
            - int (count_list dn n))"
    by (simp add: kahn_mid_def)
  ultimately show ?thesis by simp
qed

lemma kahn_mid_relax:
  assumes mid: "kahn_mid courses inDegree queue ps c dn"
    and nb: "neighbours (build_graph courses) c = dn @ n # todo"
    and step: "relax n (inDegree, queue) = (inDegree', queue')"
  shows "kahn_mid courses inDegree' queue' ps c (dn @ [n])"
proof (cases "map_of inDegree n")
  case None
  with step have same: "inDegree' = inDegree" "queue' = queue"
    by (simp_all add: relax_def)
  from None mid have "\<not> on_cycle courses n"
    by (auto simp: kahn_mid_def)
  with mid show ?thesis
    unfolding same kahn_mid_def by auto
next
  case (Some v)
  with step have deg: "inDegree' = map_set inDegree n (v - 1)"
    and que: "queue' = (if v = 1 then queue @ [n] else queue)"
    by (auto simp: relax_def)
  show ?thesis
  proof (cases "v = 1")
    case True
    have not_cyc: "\<not> on_cycle courses n"
      using cycle_node_degree [OF mid nb] Some True by auto
    from mid have "\<forall>d \<in> set (queue @ ps @ [c]). \<exists>v. map_of inDegree d = Some v \<and> v \<le> 0"
      by (simp add: kahn_mid_def)
    with Some True have fresh: "n \<notin> set (queue @ ps @ [c])"
      by force
    from mid not_cyc fresh show ?thesis
      unfolding kahn_mid_def deg que map_of_map_set using True
      by auto
  next
    case False
    from mid have "\<forall>d \<in> set (queue @ ps @ [c]). \<exists>v. map_of inDegree d = Some v \<and> v \<le> 0"
      by (simp add: kahn_mid_def)
    with Some have low: "n \<in> set (queue @ ps @ [c]) \<Longrightarrow> v \<le> 0"
      by force
    from mid Some low show ?thesis
      unfolding kahn_mid_def deg que map_of_map_set using False
      by auto
  qed
qed

lemma kahn_mid_fold:
  assumes "kahn_mid courses inDegree queue ps c dn"
    and "neighbours (build_graph courses) c = dn @ todo"
    and "fold relax todo (inDegree, queue) = (inDegree', queue')"
  shows "kahn_mid courses inDegree' queue' ps c (dn @ todo)"
  using assms
proof (induction todo arbitrary: inDegree queue dn)
  case Nil
  then show ?case by simp
next
  case (Cons n todo)
  obtain d1 q1 where step: "relax n (inDegree, queue) = (d1, q1)"
    by (cases "relax n (inDegree, queue)")
  from kahn_mid_relax [OF Cons.prems(1,2) step]
  have "kahn_mid courses d1 q1 ps c (dn @ [n])" .
  from Cons.IH [OF this] Cons.prems(2,3) step show ?case by simp
qed

lemma kahn_loop_avoids_cycles:
  assumes "kahn_inv courses inDegree queue ps" and "graph = build_graph courses"
  shows "\<exists>qs. kahn_loop courses graph inDegree queue result
           = result @ map (\<lambda>d. find (\<lambda>c. course_id c = d) courses) qs
         \<and> (\<forall>x \<in> set qs. \<not> on_cycle courses x)"
  using assms
proof (induction courses graph inDegree queue result arbitrary: ps rule: kahn_loop.induct)
  case (1 courses graph inDegree queue result)
  show ?case
  proof (cases queue)
    case Nil
    then show ?thesis
      by (intro exI [of _ "[]"]) (simp add: kahn_loop.simps [of courses graph inDegree "[]" result])
  next
    case (Cons c rest)
    obtain d1 q1 where fold: "fold relax (neighbours graph c) (inDegree, rest) = (d1, q1)"
      by (cases "fold relax (neighbours graph c) (inDegree, rest)")
    from "1.prems" Cons have mid: "kahn_mid courses inDegree rest ps c []"
      by (auto intro: kahn_inv_dequeue)
    from kahn_mid_fold [OF mid _ fold [unfolded "1.prems"(2)]]
    have "kahn_mid courses d1 q1 ps c (neighbours (build_graph courses) c)"
      by simp
    then have inv: "kahn_inv courses d1 q1 (ps @ [c])"
      by (rule kahn_mid_done)
    from "1.IH" [OF Cons fold [symmetric] inv "1.prems"(2)]
    obtain qs where
      qs: "kahn_loop courses graph d1 q1 (result @ [find (\<lambda>ca. course_id ca = c) courses])
             = (result @ [find (\<lambda>ca. course_id ca = c) courses])
               @ map (\<lambda>d. find (\<lambda>c. course_id c = d) courses) qs"
        "\<forall>x \<in> set qs. \<not> on_cycle courses x"
      by blast
    from "1.prems"(1) Cons have "\<not> on_cycle courses c"
      by (auto simp: kahn_inv_def)
    with qs Cons fold show ?thesis
      by (intro exI [of _ "c # qs"])
        (simp add: kahn_loop.simps [of courses graph inDegree "c # rest" result])
  qed
qed

lemma kahn_inv_initial:
  "kahn_inv courses (count_degrees courses (zero_degrees courses))
     (map fst (filter (\<lambda>(courseId, degree). degree = 0)
        (count_degrees courses (zero_degrees courses)))) []"
proof -
  let ?D = "count_degrees courses (zero_degrees courses)"
  have dist: "distinct (map fst ?D)" by (rule initial_degrees)
  then have "distinct (map fst (filter (\<lambda>(courseId, degree). degree = 0) ?D))"
    by (rule distinct_map_filter)
  moreover have "\<exists>v. map_of ?D d = Some v \<and> v \<le> 0"
    if "d \<in> set (map fst (filter (\<lambda>(courseId, degree). degree = 0) ?D))" for d
  proof -
    from that have "(d, 0) \<in> set ?D" by auto
    with dist have "map_of ?D d = Some 0" by simp
    then show ?thesis by simp
  qed
  moreover have "x \<notin> set (map fst (filter (\<lambda>(courseId, degree). degree = 0) ?D))
      \<and> map_of ?D x = Some (int (count_list (all_prereqs courses) x))"
    if "on_cycle courses x" for x
  proof -
    from on_cycle_predecessor [OF that] have mem: "x \<in> set (all_prereqs courses)"
      by (auto simp: all_prereqs_def)
    then have val: "map_of ?D x = Some (int (count_list (all_prereqs courses) x))"
      by (rule initial_degrees)
    from mem have "count_list (all_prereqs courses) x \<noteq> 0"
      by (simp add: count_list_0_iff)
    have "map_of ?D x = Some 0" if "(x, 0) \<in> set ?D"
      using dist that by simp
    with val \<open>count_list (all_prereqs courses) x \<noteq> 0\<close> have "(x, 0) \<notin> set ?D"
      by auto
    with val show ?thesis by auto
  qed
  ultimately show ?thesis
    by (simp add: kahn_inv_def spent_def)
qed

text \<open>
  C1, as the code has it. The routine has no failure path: for every course collection
  it returns a list, and a course whose identifier is on a cycle of prerequisite edges is
  not in that list. Nothing signals that courses were left out.
\<close>

theorem topologicalSort_omits_cycles:
  assumes "on_cycle courses (course_id c)"
  shows "\<exists>ordered. topologicalSort courses = Inr ordered \<and> Some c \<notin> set ordered"
proof -
  from kahn_loop_avoids_cycles [OF kahn_inv_initial refl, of courses "[]"]
  obtain qs where
    qs: "kahn_loop courses (build_graph courses) (count_degrees courses (zero_degrees courses))
           (map fst (filter (\<lambda>(courseId, degree). degree = 0)
              (count_degrees courses (zero_degrees courses)))) []
         = map (\<lambda>d. find (\<lambda>c. course_id c = d) courses) qs"
      "\<forall>x \<in> set qs. \<not> on_cycle courses x"
    by auto
  have "Some c \<notin> set (map (\<lambda>d. find (\<lambda>c. course_id c = d) courses) qs)"
  proof
    assume "Some c \<in> set (map (\<lambda>d. find (\<lambda>c. course_id c = d) courses) qs)"
    then obtain d where "d \<in> set qs" and "find (\<lambda>c. course_id c = d) courses = Some c"
      by auto
    then have "course_id c = d" by (auto simp: find_Some_iff)
    with \<open>d \<in> set qs\<close> qs(2) assms show False by auto
  qed
  with qs(1) show ?thesis
    by (simp add: topologicalSort_def Let_def)
qed

lemma two_cycle_on_cycle: "on_cycle two_cycle ''A''"
proof -
  have "edge two_cycle ''A'' ''B''" and "edge two_cycle ''B'' ''A''"
    by (simp_all add: edge_def two_cycle_def prereqs_of_def)
  then show ?thesis
    unfolding on_cycle_def by (rule tranclp.intros(2) [OF tranclp.intros(1)])
qed

text \<open>
  C1, as stated, fails on two courses that are each other's prerequisite: the identifier
  \<open>A\<close> is on a cycle, and the call returns the empty list rather than an error.
\<close>

theorem topologicalSort_cycle_returns:
  "on_cycle two_cycle ''A'' \<and> topologicalSort two_cycle = Inr []"
proof
  show "on_cycle two_cycle ''A''" by (rule two_cycle_on_cycle)
  show "topologicalSort two_cycle = Inr []"
    by code_simp
qed

text \<open>The two-course cycle is an instance: its first course is on a cycle and is left out.\<close>

theorem topologicalSort_omits_cycles_witness:
  "on_cycle two_cycle (course_id (hd two_cycle)) \<and>
   (\<exists>ordered. topologicalSort two_cycle = Inr ordered \<and> Some (hd two_cycle) \<notin> set ordered)"
proof -
  have cyc: "on_cycle two_cycle (course_id (hd two_cycle))"
    using two_cycle_on_cycle by (simp add: two_cycle_def)
  from cyc topologicalSort_omits_cycles [OF cyc] show ?thesis by simp
qed

end
